theory Spec2Isabelle
  imports Main "HOL-Library.Word"
begin

section \<open>The deployment controller of pkg/reconciler/deployment/controller.go\<close>

text \<open>
  The controller owns two rate-limited work queues (one for deployments, one for
  clusters), reads deployments from an informer cache and writes through the Kubernetes
  client. The model passes the controller's mutable state explicitly. The collaborators
  that the controller reaches through interfaces (indexer, lister, client, and the
  package's \<open>reconcile\<close> method) are the fields of an environment record.
\<close>

subsection \<open>Objects\<close>

datatype error = Err string

text \<open>
  \<open>metav1.ObjectMeta\<close>, restricted to the fields the controller reads. \<open>Labels\<close> is a
  Go map: \<open>None\<close> is the nil map, \<open>Some m\<close> an allocated one, \<open>m\<close> its entries.
\<close>

record object_meta =
  Name :: string
  Namespace :: string
  Labels :: "(string \<times> string) list option"

text \<open>
  \<open>appsv1.Deployment\<close>: metadata, a spec and a status. \<open>Replicas\<close> of the spec is an
  \<open>*int32\<close>, the counters of the status are \<open>int32\<close>. The other fields of the Kubernetes
  types are compared field by field in the same way and are left out.
\<close>

record deployment_spec =
  spec_Replicas :: "32 word option"

record deployment_status =
  status_Replicas :: "32 word"
  status_ReadyReplicas :: "32 word"

record deployment =
  ObjectMeta :: object_meta
  Spec :: deployment_spec
  Status :: deployment_status

text \<open>\<open>DeepCopy\<close> allocates a new object with the same contents: on values, the identity.\<close>

definition DeepCopy :: "deployment \<Rightarrow> deployment" where
  "DeepCopy d = d"

text \<open>Reading a Go map: a nil map and a missing key both give the empty string.\<close>

definition label_entries :: "(string \<times> string) list option \<Rightarrow> (string \<times> string) list" where
  "label_entries l = (case l of None \<Rightarrow> [] | Some m \<Rightarrow> m)"

definition label_get :: "(string \<times> string) list option \<Rightarrow> string \<Rightarrow> string" where
  "label_get l k = (case map_of (label_entries l) k of None \<Rightarrow> [] | Some v \<Rightarrow> v)"

text \<open>
  Modelled from the spec: \<open>equality.Semantic.DeepEqual\<close> belongs to a library that the
  controller imports and is not part of its source. It is the full semantic, deep
  equality of the specification: it walks both values structurally; a nil map and an
  empty map are equal; two maps are equal when they hold the same keys with equal
  values; a struct is equal when each of its fields is; pointers are equal when both are
  nil or their targets are equal.
\<close>

definition DeepEqual_labels ::
  "(string \<times> string) list option \<Rightarrow> (string \<times> string) list option \<Rightarrow> bool" where
  "DeepEqual_labels a b =
     list_all (\<lambda>k. map_of (label_entries a) k = map_of (label_entries b) k)
       (map fst (label_entries a) @ map fst (label_entries b))"

definition DeepEqual_meta :: "object_meta \<Rightarrow> object_meta \<Rightarrow> bool" where
  "DeepEqual_meta a b =
     (Name a = Name b \<and> Namespace a = Namespace b \<and> DeepEqual_labels (Labels a) (Labels b))"

definition DeepEqual_spec :: "deployment_spec \<Rightarrow> deployment_spec \<Rightarrow> bool" where
  "DeepEqual_spec a b = (spec_Replicas a = spec_Replicas b)"

definition DeepEqual_status :: "deployment_status \<Rightarrow> deployment_status \<Rightarrow> bool" where
  "DeepEqual_status a b =
     (status_Replicas a = status_Replicas b \<and> status_ReadyReplicas a = status_ReadyReplicas b)"

definition DeepEqual :: "deployment \<Rightarrow> deployment \<Rightarrow> bool" where
  "DeepEqual a b =
     (DeepEqual_meta (ObjectMeta a) (ObjectMeta b) \<and> DeepEqual_spec (Spec a) (Spec b)
      \<and> DeepEqual_status (Status a) (Status b))"

text \<open>
  What an informer hands to an event handler is an \<open>interface{}\<close>: a deployment, a
  cluster (of which only the metadata matters here), an explicit key, or a value without
  object metadata, such as the tombstone of a missed deletion.

  Modelled from the spec: \<open>cache.MetaNamespaceKeyFunc\<close> belongs to a library that the
  controller imports and is not part of its source. The key is derived from namespace and
  name, and the derivation fails for an object without identity metadata.
\<close>

datatype obj =
  DeploymentObj deployment
  | ClusterObj object_meta
  | ExplicitKey string
  | NoMeta

definition meta_key :: "object_meta \<Rightarrow> string" where
  "meta_key m = (if length (Namespace m) > 0 then Namespace m @ ''/'' @ Name m else Name m)"

fun MetaNamespaceKeyFunc :: "obj \<Rightarrow> error + string" where
  "MetaNamespaceKeyFunc (ExplicitKey k) = Inr k"
| "MetaNamespaceKeyFunc (DeploymentObj d) = Inr (meta_key (ObjectMeta d))"
| "MetaNamespaceKeyFunc (ClusterObj m) = Inr (meta_key m)"
| "MetaNamespaceKeyFunc NoMeta = Inl (Err ''object has no meta'')"

subsection \<open>The rate-limited work queue\<close>

text \<open>
  Modelled from the spec: the work queue is \<open>k8s.io/client-go/util/workqueue\<close>, imported
  by the controller and not part of its source. Its state is the FIFO of pending keys,
  the dirty set, the processing set, the keys waiting for their rate-limit delay, and the
  failure counter of each key. \<open>calls\<close> is the trace of the calls the controller made on
  the queue, oldest first.
\<close>

datatype wq_op =
  OpAdd string
  | OpAddRateLimited string
  | OpGet string
  | OpDone string
  | OpForget string

record workqueue =
  pending :: "string list"
  dirty :: "string set"
  processing :: "string set"
  waiting :: "string list"
  failures :: "string \<Rightarrow> nat"
  shuttingDown :: bool
  calls :: "wq_op list"

definition new_queue :: workqueue where
  "new_queue = \<lparr>pending = [], dirty = {}, processing = {}, waiting = [],
     failures = (\<lambda>_. 0), shuttingDown = False, calls = []\<rparr>"

text \<open>The queue's own insertion: a dirty key is dropped, a key in processing is only marked.\<close>

definition add_item :: "string \<Rightarrow> workqueue \<Rightarrow> workqueue" where
  "add_item k q =
     (if shuttingDown q then q
      else if k \<in> dirty q then q
      else if k \<in> processing q then q\<lparr>dirty := insert k (dirty q)\<rparr>
      else q\<lparr>dirty := insert k (dirty q), pending := pending q @ [k]\<rparr>)"

definition Add :: "string \<Rightarrow> workqueue \<Rightarrow> workqueue" where
  "Add k q = add_item k (q\<lparr>calls := calls q @ [OpAdd k]\<rparr>)"

text \<open>
  \<open>AddRateLimited\<close> asks the rate limiter when the key may come back, which counts one
  more failure for it, and parks the key until then.
\<close>

definition AddRateLimited :: "string \<Rightarrow> workqueue \<Rightarrow> workqueue" where
  "AddRateLimited k q =
     (let q1 = q\<lparr>failures := (failures q)(k := Suc (failures q k)),
                 calls := calls q @ [OpAddRateLimited k]\<rparr>
      in if shuttingDown q then q1 else q1\<lparr>waiting := waiting q @ [k]\<rparr>)"

text \<open>The delay of a waiting key has elapsed: the queue inserts it.\<close>

definition release :: "string \<Rightarrow> workqueue \<Rightarrow> workqueue" where
  "release k q =
     (if k \<in> set (waiting q) then add_item k (q\<lparr>waiting := remove1 k (waiting q)\<rparr>) else q)"

datatype get_result = Blocked | Quit | Item string workqueue

definition Get :: "workqueue \<Rightarrow> get_result" where
  "Get q =
     (case pending q of
        [] \<Rightarrow> if shuttingDown q then Quit else Blocked
      | k # ks \<Rightarrow>
          Item k (q\<lparr>pending := ks, processing := insert k (processing q),
                    dirty := dirty q - {k}, calls := calls q @ [OpGet k]\<rparr>))"

definition Done :: "string \<Rightarrow> workqueue \<Rightarrow> workqueue" where
  "Done k q =
     (let q1 = q\<lparr>processing := processing q - {k}, calls := calls q @ [OpDone k]\<rparr>
      in if k \<in> dirty q then q1\<lparr>pending := pending q @ [k]\<rparr> else q1)"

definition Forget :: "string \<Rightarrow> workqueue \<Rightarrow> workqueue" where
  "Forget k q = q\<lparr>failures := (failures q)(k := 0), calls := calls q @ [OpForget k]\<rparr>"

definition NumRequeues :: "workqueue \<Rightarrow> string \<Rightarrow> nat" where
  "NumRequeues q k = failures q k"

definition ShutDown :: "workqueue \<Rightarrow> workqueue" where
  "ShutDown q = q\<lparr>shuttingDown := True\<rparr>"

subsection \<open>The controller\<close>

text \<open>
  The objects of the informer cache live at addresses; indexer and lister return
  addresses, so that a write through a returned pointer is a write to the cached object.
  \<open>api_calls\<close> is the trace of requests sent through the client, \<open>handled_errors\<close> what was
  given to \<open>runtime.HandleError\<close>.
\<close>

type_synonym addr = nat

datatype api_call =
  Update string deployment
  | UpdateStatus string deployment

record controller =
  objects :: "addr \<Rightarrow> deployment"
  queue :: workqueue
  clusterQueue :: workqueue
  api_calls :: "api_call list"
  handled_errors :: "error list"

text \<open>
  The collaborators, as parameters. \<open>reconcile\<close> changes the object it is given in
  place and may fail; it is defined elsewhere in the package, and so is the constant
  \<open>ownedByLabel\<close>. \<open>kube_Update\<close> and \<open>kube_UpdateStatus\<close> are the answers of the API
  server. The trace \<open>api_calls\<close> holds the requests that \<open>process\<close> sends, not what
  \<open>reconcile\<close> may send on its own.
\<close>

record env =
  indexer_GetByKey :: "string \<Rightarrow> error + addr option"
  lister_List :: "error + addr list"
  reconcile :: "deployment \<Rightarrow> deployment \<times> error option"
  kube_Update :: "deployment \<Rightarrow> error option"
  kube_UpdateStatus :: "deployment \<Rightarrow> error option"
  ownedByLabel :: string

definition enqueueCluster :: "obj \<Rightarrow> controller \<Rightarrow> controller" where
  "enqueueCluster ob c =
     (case MetaNamespaceKeyFunc ob of
        Inl err \<Rightarrow> c\<lparr>handled_errors := handled_errors c @ [err]\<rparr>
      | Inr key \<Rightarrow> c\<lparr>clusterQueue := AddRateLimited key (clusterQueue c)\<rparr>)"

definition enqueue :: "obj \<Rightarrow> controller \<Rightarrow> controller" where
  "enqueue ob c =
     (case MetaNamespaceKeyFunc ob of
        Inl err \<Rightarrow> c\<lparr>handled_errors := handled_errors c @ [err]\<rparr>
      | Inr key \<Rightarrow> c\<lparr>queue := AddRateLimited key (queue c)\<rparr>)"

text \<open>
  The handlers that \<open>NewController\<close> registers. The cluster informer gets all three
  functions; the deployment informer gets \<open>AddFunc\<close> and \<open>UpdateFunc\<close> only, and a
  \<open>ResourceEventHandlerFuncs\<close> without \<open>DeleteFunc\<close> ignores deletions.
\<close>

datatype notification =
  OnAdd obj
  | OnUpdate obj obj
  | OnDelete obj

fun clusterEventHandler :: "notification \<Rightarrow> controller \<Rightarrow> controller" where
  "clusterEventHandler (OnAdd ob) c = enqueueCluster ob c"
| "clusterEventHandler (OnUpdate old ob) c = enqueueCluster ob c"
| "clusterEventHandler (OnDelete ob) c = enqueueCluster ob c"

fun deploymentEventHandler :: "notification \<Rightarrow> controller \<Rightarrow> controller" where
  "deploymentEventHandler (OnAdd ob) c = enqueue ob c"
| "deploymentEventHandler (OnUpdate old ob) c = enqueue ob c"
| "deploymentEventHandler (OnDelete ob) c = c"

text \<open>\<open>handleErr\<close> works on the queue it is given and on the error sink.\<close>

definition handleErr ::
  "error option \<Rightarrow> string \<Rightarrow> workqueue \<times> error list \<Rightarrow> workqueue \<times> error list" where
  "handleErr err key qs =
     (case qs of (q, sink) \<Rightarrow>
        (case err of
           None \<Rightarrow> (Forget key q, sink)
         | Some e \<Rightarrow>
             if NumRequeues q key < 5 then (AddRateLimited key q, sink)
             else (Forget key q, sink @ [e])))"

text \<open>
  \<open>process\<close>: \<open>current\<close> is the cached object itself, \<open>previous\<close> a copy taken before
  \<open>reconcile\<close> runs on \<open>current\<close>.
\<close>

definition process :: "env \<Rightarrow> string \<Rightarrow> controller \<Rightarrow> error option \<times> controller" where
  "process E key c =
     (case indexer_GetByKey E key of
        Inl err \<Rightarrow> (Some err, c)
      | Inr None \<Rightarrow> (None, c)
      | Inr (Some p) \<Rightarrow>
          (let previous = DeepCopy (objects c p);
               (current, rerr) = reconcile E (objects c p);
               c1 = c\<lparr>objects := (objects c)(p := current)\<rparr>
           in case rerr of
                Some err \<Rightarrow> (Some err, c1)
              | None \<Rightarrow>
                  if \<not> DeepEqual previous current then
                    (kube_Update E current,
                     c1\<lparr>api_calls := api_calls c1 @ [Update (Namespace (ObjectMeta current)) current]\<rparr>)
                  else if \<not> DeepEqual_status (Status previous) (Status current) then
                    (kube_UpdateStatus E current,
                     c1\<lparr>api_calls :=
                          api_calls c1 @ [UpdateStatus (Namespace (ObjectMeta current)) current]\<rparr>)
                  else (None, c1)))"

text \<open>
  The loop of \<open>processCluster\<close> over the listed deployments. Its first statement
  allocates the label map of a deployment that has none, in the listed object itself.
\<close>

definition init_labels :: "deployment \<Rightarrow> deployment" where
  "init_labels d =
     (if Labels (ObjectMeta d) = None
      then d\<lparr>ObjectMeta := (ObjectMeta d)\<lparr>Labels := Some []\<rparr>\<rparr> else d)"

fun processCluster_loop :: "string \<Rightarrow> addr list \<Rightarrow> controller \<Rightarrow> controller" where
  "processCluster_loop owned [] c = c"
| "processCluster_loop owned (p # ps) c =
     (let d = init_labels (objects c p);
          c1 = c\<lparr>objects := (objects c)(p := d)\<rparr>;
          c2 = (if label_get (Labels (ObjectMeta d)) owned = [] then enqueue (DeploymentObj d) c1
                else c1)
      in processCluster_loop owned ps c2)"

definition processCluster :: "env \<Rightarrow> string \<Rightarrow> controller \<Rightarrow> error option \<times> controller" where
  "processCluster E key c =
     (case lister_List E of
        Inl err \<Rightarrow> (Some err, c)
      | Inr ds \<Rightarrow> (None, processCluster_loop (ownedByLabel E) ds c))"

text \<open>
  One turn of a worker. \<open>None\<close> stands for a worker blocked in \<open>Get\<close>; otherwise the
  boolean is the one the source returns. The deferred call runs last.
\<close>

definition processNextWorkItem :: "env \<Rightarrow> controller \<Rightarrow> (bool \<times> controller) option" where
  "processNextWorkItem E c =
     (case Get (queue c) of
        Blocked \<Rightarrow> None
      | Quit \<Rightarrow> Some (False, c)
      | Item key q \<Rightarrow>
          (let c1 = c\<lparr>queue := q\<rparr>;
               (err, c2) = process E key c1;
               (q3, sink) = handleErr err key (queue c2, handled_errors c2);
               c3 = c2\<lparr>queue := q3, handled_errors := sink\<rparr>
           in Some (True, c3\<lparr>queue := Done key (queue c3)\<rparr>)))"

definition processNextClusterWorkItem :: "env \<Rightarrow> controller \<Rightarrow> (bool \<times> controller) option" where
  "processNextClusterWorkItem E c =
     (case Get (clusterQueue c) of
        Blocked \<Rightarrow> None
      | Quit \<Rightarrow> Some (False, c)
      | Item key q \<Rightarrow>
          (let c1 = c\<lparr>clusterQueue := q\<rparr>;
               (err, c2) = processCluster E key c1;
               (q3, sink) = handleErr err key (clusterQueue c2, handled_errors c2);
               c3 = c2\<lparr>clusterQueue := q3, handled_errors := sink\<rparr>
           in Some (True, c3\<lparr>queue := Done key (queue c3)\<rparr>)))"

subsection \<open>Notions used in the statements\<close>

text \<open>
  A root deployment, in the words of the specification: its ownership label is absent or
  empty. The loop above tests it by reading the label map.
\<close>

definition is_root :: "string \<Rightarrow> deployment \<Rightarrow> bool" where
  "is_root owned d =
     (case Labels (ObjectMeta d) of
        None \<Rightarrow> True
      | Some m \<Rightarrow> (case map_of m owned of None \<Rightarrow> True | Some v \<Rightarrow> v = []))"

definition deployment_key :: "deployment \<Rightarrow> string" where
  "deployment_key d = meta_key (ObjectMeta d)"

fun is_UpdateStatus :: "api_call \<Rightarrow> bool" where
  "is_UpdateStatus (UpdateStatus ns d) = True"
| "is_UpdateStatus (Update ns d) = False"

fun is_AddRateLimited :: "wq_op \<Rightarrow> bool" where
  "is_AddRateLimited (OpAddRateLimited k) = True"
| "is_AddRateLimited other = False"

subsection \<open>Concrete inputs\<close>

text \<open>
  A deployment \<open>x\<close> with two replicas in its status, two roots \<open>a\<close> and \<open>b\<close>, and a
  deployment \<open>c\<close> derived from \<open>a\<close>.
\<close>

definition mk_deployment ::
  "string \<Rightarrow> (string \<times> string) list option \<Rightarrow> 32 word \<Rightarrow> deployment" where
  "mk_deployment n ls r =
     \<lparr>ObjectMeta = \<lparr>Name = n, Namespace = ''default'', Labels = ls\<rparr>,
      Spec = \<lparr>spec_Replicas = Some 3\<rparr>,
      Status = \<lparr>status_Replicas = r, status_ReadyReplicas = r\<rparr>\<rparr>"

definition dep_x :: deployment where
  "dep_x = mk_deployment ''x'' None 2"

definition dep_a :: deployment where
  "dep_a = mk_deployment ''a'' None 3"

definition dep_b :: deployment where
  "dep_b = mk_deployment ''b'' (Some [(''app'', ''b''), (''kcp.dev/owned-by'', [])]) 3"

definition dep_c :: deployment where
  "dep_c = mk_deployment ''c'' (Some [(''kcp.dev/owned-by'', ''a'')]) 3"

text \<open>A reconcile function that reports \<open>r\<close> replicas in the status and nothing else.\<close>

definition set_status_replicas :: "32 word \<Rightarrow> deployment \<Rightarrow> deployment \<times> error option" where
  "set_status_replicas r d = (d\<lparr>Status := (Status d)\<lparr>status_Replicas := r\<rparr>\<rparr>, None)"

definition demo_objects :: "addr \<Rightarrow> deployment" where
  "demo_objects p =
     (if p = 0 then dep_x else if p = 1 then dep_a else if p = 2 then dep_b else dep_c)"

definition demo_GetByKey :: "string \<Rightarrow> error + addr option" where
  "demo_GetByKey k =
     (if k = ''default/x'' then Inr (Some 0)
      else if k = ''default/a'' then Inr (Some 1)
      else if k = ''default/broken'' then Inl (Err ''lookup failed'')
      else Inr None)"

definition demo_env :: env where
  "demo_env =
     \<lparr>indexer_GetByKey = demo_GetByKey, lister_List = Inr [1, 2, 3],
      reconcile = set_status_replicas 3,
      kube_Update = (\<lambda>d. None), kube_UpdateStatus = (\<lambda>d. None),
      ownedByLabel = ''kcp.dev/owned-by''\<rparr>"

definition new_controller :: controller where
  "new_controller =
     \<lparr>objects = demo_objects, queue = new_queue, clusterQueue = new_queue,
      api_calls = [], handled_errors = []\<rparr>"

text \<open>
  A handler that fails with the same error \<open>n\<close> times in a row for one key: \<open>n\<close> calls of
  \<open>handleErr\<close> on the same queue.
\<close>

definition retry ::
  "nat \<Rightarrow> error \<Rightarrow> string \<Rightarrow> workqueue \<times> error list \<Rightarrow> workqueue \<times> error list" where
  "retry n e key qs = ((handleErr (Some e) key) ^^ n) qs"

definition cluster_east :: object_meta where
  "cluster_east = \<lparr>Name = ''east'', Namespace = [], Labels = None\<rparr>"

definition cluster_pending :: controller where
  "cluster_pending =
     (let c = clusterEventHandler (OnAdd (ClusterObj cluster_east)) new_controller
      in c\<lparr>clusterQueue := release ''east'' (clusterQueue c)\<rparr>)"

text \<open>The same collaborators with an API server that refuses every \<open>Update\<close>.\<close>

definition failing_update_env :: env where
  "failing_update_env = demo_env\<lparr>kube_Update := (\<lambda>d. Some (Err ''network''))\<rparr>"

section \<open>Properties\<close>

subsection \<open>Semantic equality\<close>

lemmas demo_defs = demo_env_def demo_GetByKey_def new_controller_def demo_objects_def
  dep_x_def dep_a_def dep_b_def dep_c_def mk_deployment_def set_status_replicas_def new_queue_def

lemma DeepEqual_labels_refl: "DeepEqual_labels a a"
  by (simp add: DeepEqual_labels_def list_all_iff)

lemma DeepEqual_refl: "DeepEqual d d"
  by (simp add: DeepEqual_def DeepEqual_meta_def DeepEqual_spec_def DeepEqual_status_def
      DeepEqual_labels_refl)

subsection \<open>Facts about the queue operations\<close>

lemma AddRateLimited_effect:
  "NumRequeues (AddRateLimited k q) k = Suc (NumRequeues q k)"
  "calls (AddRateLimited k q) = calls q @ [OpAddRateLimited k]"
  "pending (AddRateLimited k q) = pending q"
  by (simp_all add: AddRateLimited_def NumRequeues_def Let_def)

lemma Forget_effect:
  "NumRequeues (Forget k q) k = 0"
  "calls (Forget k q) = calls q @ [OpForget k]"
  "waiting (Forget k q) = waiting q"
  "pending (Forget k q) = pending q"
  by (simp_all add: Forget_def NumRequeues_def)

subsection \<open>The retry budget of \<open>handleErr\<close>\<close>

lemma retry_Suc: "retry (Suc n) e key qs = handleErr (Some e) key (retry n e key qs)"
  by (simp add: retry_def)

lemma retry_0: "retry 0 e key qs = qs"
  by (simp add: retry_def)

lemma retry_within_budget:
  "NumRequeues q key + n \<le> 5 \<Longrightarrow>
     snd (retry n e key (q, sink)) = sink
     \<and> NumRequeues (fst (retry n e key (q, sink))) key = NumRequeues q key + n
     \<and> calls (fst (retry n e key (q, sink))) = calls q @ replicate n (OpAddRateLimited key)"
proof (induction n)
  case 0
  show ?case by (simp add: retry_0)
next
  case (Suc n)
  obtain q1 s1 where r: "retry n e key (q, sink) = (q1, s1)"
    by (cases "retry n e key (q, sink)")
  from Suc r have ih: "s1 = sink" "NumRequeues q1 key = NumRequeues q key + n"
    "calls q1 = calls q @ replicate n (OpAddRateLimited key)"
    by simp_all
  from Suc.prems ih(2) have lt: "NumRequeues q1 key < 5" by simp
  have step: "retry (Suc n) e key (q, sink) = (AddRateLimited key q1, s1)"
    using lt by (simp add: retry_Suc r handleErr_def)
  show ?case
    by (simp add: step ih AddRateLimited_effect replicate_append_same)
qed

text \<open>
  Claim C6. A key whose handler fails every time is put back with \<open>AddRateLimited\<close> as
  long as its counter is below five: from a counter \<open>m\<close> that is \<open>5 - m\<close> times, five
  for a fresh key and never more. The failure after that puts nothing back: it resets
  the counter with \<open>Forget\<close> and hands the error to the error sink.
\<close>

theorem handleErr_retry_bound:
  "5 - NumRequeues q key \<le> 5
   \<and> calls (fst (retry (5 - NumRequeues q key) e key (q, sink)))
       = calls q @ replicate (5 - NumRequeues q key) (OpAddRateLimited key)
   \<and> snd (retry (5 - NumRequeues q key) e key (q, sink)) = sink
   \<and> calls (fst (retry (Suc (5 - NumRequeues q key)) e key (q, sink)))
       = calls q @ replicate (5 - NumRequeues q key) (OpAddRateLimited key) @ [OpForget key]
   \<and> snd (retry (Suc (5 - NumRequeues q key)) e key (q, sink)) = sink @ [e]
   \<and> NumRequeues (fst (retry (Suc (5 - NumRequeues q key)) e key (q, sink))) key = 0
   \<and> waiting (fst (retry (Suc (5 - NumRequeues q key)) e key (q, sink)))
       = waiting (fst (retry (5 - NumRequeues q key) e key (q, sink)))"
proof (cases "NumRequeues q key \<le> 5")
  case True
  let ?n = "5 - NumRequeues q key"
  obtain q1 s1 where r: "retry ?n e key (q, sink) = (q1, s1)"
    by (cases "retry ?n e key (q, sink)")
  from True have "NumRequeues q key + ?n \<le> 5" by simp
  from retry_within_budget [OF this, of e sink] r True
  have ih: "s1 = sink" "NumRequeues q1 key = 5"
    "calls q1 = calls q @ replicate ?n (OpAddRateLimited key)"
    by simp_all
  have step: "retry (Suc ?n) e key (q, sink) = (Forget key q1, s1 @ [e])"
    using ih(2) by (simp add: retry_Suc r handleErr_def)
  show ?thesis
    by (simp add: step r ih Forget_effect)
next
  case False
  then have z: "5 - NumRequeues q key = 0" by simp
  from False have "\<not> NumRequeues q key < 5" by simp
  then show ?thesis
    by (simp add: z retry_Suc retry_0 handleErr_def Forget_effect)
qed

theorem handleErr_retry_bound_witness:
  "calls (fst (retry 5 (Err ''boom'') ''default/x'' (new_queue, [])))
       = replicate 5 (OpAddRateLimited ''default/x'')
   \<and> calls (fst (retry 6 (Err ''boom'') ''default/x'' (new_queue, [])))
       = replicate 5 (OpAddRateLimited ''default/x'') @ [OpForget ''default/x'']
   \<and> snd (retry 6 (Err ''boom'') ''default/x'' (new_queue, [])) = [Err ''boom'']"
proof -
  have m: "NumRequeues new_queue ''default/x'' = 0"
    by (simp add: NumRequeues_def new_queue_def)
  have c: "calls new_queue = []" by (simp add: new_queue_def)
  show ?thesis
    using handleErr_retry_bound [of new_queue "''default/x''" "Err ''boom''" "[]"]
    by (simp add: m c)
qed

subsection \<open>\<open>process\<close>: which requests are sent\<close>

lemma DeepEqual_imp_status: "DeepEqual a b \<Longrightarrow> DeepEqual_status (Status a) (Status b)"
  by (simp add: DeepEqual_def)

text \<open>
  Claim C8. When the indexer does not find the key, \<open>process\<close> returns no error and
  leaves the whole state as it was; in particular it sends no request.
\<close>

theorem process_not_found:
  "indexer_GetByKey E key = Inr None \<Longrightarrow> process E key c = (None, c)"
  by (simp add: process_def)

theorem process_not_found_witness:
  "indexer_GetByKey demo_env ''default/gone'' = Inr None
   \<and> process demo_env ''default/gone'' new_controller = (None, new_controller)"
proof -
  have h: "indexer_GetByKey demo_env ''default/gone'' = Inr None"
    by (simp add: demo_env_def demo_GetByKey_def)
  show ?thesis using h process_not_found [OF h, of new_controller] by simp
qed

text \<open>
  Claim C9. When \<open>reconcile\<close> succeeds and leaves the object semantically equal to the
  snapshot taken before it, \<open>process\<close> returns no error and sends no request.
\<close>

theorem process_no_change_no_call:
  assumes "indexer_GetByKey E key = Inr (Some p)"
    and "reconcile E (objects c p) = (d, None)"
    and "DeepEqual (objects c p) d"
  shows "fst (process E key c) = None \<and> api_calls (snd (process E key c)) = api_calls c"
  using assms DeepEqual_imp_status [OF assms(3)]
  by (simp add: process_def DeepCopy_def)

theorem process_no_change_no_call_witness:
  "indexer_GetByKey demo_env ''default/a'' = Inr (Some 1)
   \<and> reconcile demo_env (objects new_controller 1) = (dep_a, None)
   \<and> DeepEqual (objects new_controller 1) dep_a
   \<and> fst (process demo_env ''default/a'' new_controller) = None
   \<and> api_calls (snd (process demo_env ''default/a'' new_controller)) = []"
proof -
  have g: "indexer_GetByKey demo_env ''default/a'' = Inr (Some 1)"
    by (simp add: demo_env_def demo_GetByKey_def)
  have r: "reconcile demo_env (objects new_controller 1) = (dep_a, None)"
    by (simp add: demo_defs)
  have e: "DeepEqual (objects new_controller 1) dep_a"
    by (simp add: new_controller_def demo_objects_def DeepEqual_refl)
  have a: "api_calls new_controller = []"
    by (simp add: new_controller_def)
  show ?thesis
    using g r e process_no_change_no_call [OF g r e] by (simp add: a)
qed

text \<open>
  Claim C10. Whatever the key, the cache and the reconcile function, \<open>process\<close> sends
  either nothing or one \<open>Update\<close>, and never an \<open>UpdateStatus\<close>: a status that differs
  makes the comparison of the whole objects fail first.
\<close>

theorem process_never_UpdateStatus:
  "(api_calls (snd (process E key c)) = api_calls c
    \<or> (\<exists>d. api_calls (snd (process E key c)) = api_calls c @ [Update (Namespace (ObjectMeta d)) d]))
   \<and> filter is_UpdateStatus (api_calls (snd (process E key c)))
       = filter is_UpdateStatus (api_calls c)"
  by (auto simp: process_def DeepCopy_def Let_def DeepEqual_def
      split: sum.splits option.splits prod.splits)

theorem process_never_UpdateStatus_witness:
  "filter is_UpdateStatus (api_calls (snd (process demo_env ''default/x'' new_controller))) = []"
  using process_never_UpdateStatus [of demo_env "''default/x''" new_controller]
  by (simp add: new_controller_def)

text \<open>
  Claim C1, evaluated where it fails. The deployment \<open>default/x\<close> has two replicas in its
  status; \<open>reconcile\<close> sets three and leaves metadata and spec alone. \<open>process\<close> answers
  with one \<open>Update\<close> of the whole object and no \<open>UpdateStatus\<close>.
\<close>

theorem status_only_change_sends_Update:
  "ObjectMeta (fst (reconcile demo_env dep_x)) = ObjectMeta dep_x
   \<and> Spec (fst (reconcile demo_env dep_x)) = Spec dep_x
   \<and> status_Replicas (Status dep_x) = 2
   \<and> status_Replicas (Status (fst (reconcile demo_env dep_x))) = 3
   \<and> objects new_controller 0 = dep_x
   \<and> indexer_GetByKey demo_env ''default/x'' = Inr (Some 0)
   \<and> fst (process demo_env ''default/x'' new_controller) = None
   \<and> api_calls (snd (process demo_env ''default/x'' new_controller))
       = [Update ''default'' (fst (reconcile demo_env dep_x))]"
  by (simp add: demo_defs process_def DeepCopy_def DeepEqual_def DeepEqual_status_def)

subsection \<open>\<open>processCluster\<close>: the loop over the listed deployments\<close>

lemma init_labels_key: "meta_key (ObjectMeta (init_labels d)) = meta_key (ObjectMeta d)"
  by (simp add: init_labels_def meta_key_def)

lemma root_test: "(label_get (Labels (ObjectMeta d)) owned = []) = is_root owned d"
  by (simp add: label_get_def label_entries_def is_root_def split: option.splits)

lemma is_root_init_labels: "is_root owned (init_labels d) = is_root owned d"
  by (simp add: is_root_def init_labels_def)

lemma init_labels_DeepEqual: "DeepEqual d (init_labels d)"
  by (simp add: DeepEqual_def DeepEqual_meta_def DeepEqual_spec_def DeepEqual_status_def
      init_labels_def DeepEqual_labels_refl)
    (simp add: DeepEqual_labels_def label_entries_def)

lemma enqueue_deployment:
  "enqueue (DeploymentObj d) c = c\<lparr>queue := AddRateLimited (deployment_key d) (queue c)\<rparr>"
  by (simp add: enqueue_def deployment_key_def)

lemma loop_step:
  "processCluster_loop owned (p # ps) c =
     processCluster_loop owned ps
       (if is_root owned (objects c p)
        then c\<lparr>objects := (objects c)(p := init_labels (objects c p)),
               queue := AddRateLimited (deployment_key (objects c p)) (queue c)\<rparr>
        else c\<lparr>objects := (objects c)(p := init_labels (objects c p))\<rparr>)"
  by (simp add: Let_def root_test is_root_init_labels enqueue_deployment deployment_key_def
      init_labels_key)

lemma loop_objects:
  "objects (processCluster_loop owned ps c) p =
     (if p \<in> set ps then init_labels (objects c p) else objects c p)"
proof (induction ps arbitrary: c)
  case Nil
  show ?case by simp
next
  case (Cons a ps)
  have idem: "init_labels (init_labels (objects c a)) = init_labels (objects c a)"
    by (simp add: init_labels_def)
  show ?case
    using idem by (simp add: loop_step Cons.IH del: processCluster_loop.simps)
qed

lemma loop_frame:
  "clusterQueue (processCluster_loop owned ps c) = clusterQueue c
   \<and> api_calls (processCluster_loop owned ps c) = api_calls c
   \<and> handled_errors (processCluster_loop owned ps c) = handled_errors c"
proof (induction ps arbitrary: c)
  case Nil
  show ?case by simp
next
  case (Cons a ps)
  show ?case by (simp add: loop_step Cons.IH del: processCluster_loop.simps)
qed

lemma loop_queue:
  "queue (processCluster_loop owned ps c) =
     fold (\<lambda>p. AddRateLimited (deployment_key (objects c p)))
       (filter (\<lambda>p. is_root owned (objects c p)) ps) (queue c)"
proof (induction ps arbitrary: c)
  case Nil
  show ?case by simp
next
  case (Cons a ps)
  let ?c2 = "if is_root owned (objects c a)
        then c\<lparr>objects := (objects c)(a := init_labels (objects c a)),
               queue := AddRateLimited (deployment_key (objects c a)) (queue c)\<rparr>
        else c\<lparr>objects := (objects c)(a := init_labels (objects c a))\<rparr>"
  have k: "deployment_key (objects ?c2 p) = deployment_key (objects c p)" for p
    by (simp add: deployment_key_def init_labels_key)
  have r: "is_root owned (objects ?c2 p) = is_root owned (objects c p)" for p
    by (simp add: is_root_init_labels)
  have "queue (processCluster_loop owned (a # ps) c) = queue (processCluster_loop owned ps ?c2)"
    by (simp only: loop_step)
  also have "\<dots> = fold (\<lambda>p. AddRateLimited (deployment_key (objects c p)))
       (filter (\<lambda>p. is_root owned (objects c p)) ps) (queue ?c2)"
    by (simp only: Cons.IH k r)
  finally show ?case by simp
qed

lemma fold_AddRateLimited_calls:
  "calls (fold (\<lambda>p. AddRateLimited (f p)) ps q) = calls q @ map (\<lambda>p. OpAddRateLimited (f p)) ps"
  by (induction ps arbitrary: q) (simp_all add: AddRateLimited_effect)

lemma fold_AddRateLimited_pending:
  "pending (fold (\<lambda>p. AddRateLimited (f p)) ps q) = pending q"
  by (induction ps arbitrary: q) (simp_all add: AddRateLimited_effect)

text \<open>
  Claim C7. When the lister returns the deployments \<open>ds\<close>, \<open>processCluster\<close> puts on the
  primary queue the keys of the roots among them, one call for each root in the order of
  the list, and nothing for a derived deployment; the cluster queue and the request
  trace stay as they were. When the lister fails, the error is returned and the state is
  unchanged.
\<close>

theorem processCluster_fan_out:
  "(lister_List E = Inl e \<longrightarrow> processCluster E key c = (Some e, c))
   \<and> (lister_List E = Inr ds \<longrightarrow>
        fst (processCluster E key c) = None
        \<and> queue (snd (processCluster E key c))
            = fold (\<lambda>p. AddRateLimited (deployment_key (objects c p)))
                (filter (\<lambda>p. is_root (ownedByLabel E) (objects c p)) ds) (queue c)
        \<and> calls (queue (snd (processCluster E key c)))
            = calls (queue c) @ map (\<lambda>p. OpAddRateLimited (deployment_key (objects c p)))
                (filter (\<lambda>p. is_root (ownedByLabel E) (objects c p)) ds)
        \<and> clusterQueue (snd (processCluster E key c)) = clusterQueue c
        \<and> api_calls (snd (processCluster E key c)) = api_calls c)"
  by (simp add: processCluster_def loop_queue loop_frame fold_AddRateLimited_calls)

theorem processCluster_fan_out_witness:
  "calls (queue (snd (processCluster demo_env ''east'' new_controller)))
     = [OpAddRateLimited ''default/a'', OpAddRateLimited ''default/b'']
   \<and> processCluster (demo_env\<lparr>lister_List := Inl (Err ''list failed'')\<rparr>) ''east'' new_controller
       = (Some (Err ''list failed''), new_controller)"
proof -
  have l: "lister_List demo_env = Inr [1, 2, 3]" by (simp add: demo_env_def)
  have f: "lister_List (demo_env\<lparr>lister_List := Inl (Err ''list failed'')\<rparr>)
      = Inl (Err ''list failed'')"
    by simp
  from processCluster_fan_out [of demo_env "Err []" "''east''" new_controller "[1, 2, 3]"] l
  have A: "calls (queue (snd (processCluster demo_env ''east'' new_controller)))
      = calls (queue new_controller)
        @ map (\<lambda>p. OpAddRateLimited (deployment_key (objects new_controller p)))
            (filter (\<lambda>p. is_root (ownedByLabel demo_env) (objects new_controller p)) [1, 2, 3])"
    by blast
  from processCluster_fan_out [of "demo_env\<lparr>lister_List := Inl (Err ''list failed'')\<rparr>"
         "Err ''list failed''" "''east''" new_controller "[]"] f
  have B: "processCluster (demo_env\<lparr>lister_List := Inl (Err ''list failed'')\<rparr>) ''east''
      new_controller = (Some (Err ''list failed''), new_controller)"
    by blast
  have C: "calls (queue new_controller)
        @ map (\<lambda>p. OpAddRateLimited (deployment_key (objects new_controller p)))
            (filter (\<lambda>p. is_root (ownedByLabel demo_env) (objects new_controller p)) [1, 2, 3])
        = [OpAddRateLimited ''default/a'', OpAddRateLimited ''default/b'']"
    by (simp add: demo_defs is_root_def deployment_key_def meta_key_def)
  show ?thesis using A B C by simp
qed

subsection \<open>Writes to cached objects\<close>

lemma process_frame:
  "queue (snd (process E key c)) = queue c
   \<and> clusterQueue (snd (process E key c)) = clusterQueue c
   \<and> handled_errors (snd (process E key c)) = handled_errors c"
  by (simp add: process_def Let_def split: sum.splits option.splits prod.splits)

lemma process_objects:
  "objects (snd (process E key c)) =
     (case indexer_GetByKey E key of
        Inr (Some a) \<Rightarrow> (objects c)(a := fst (reconcile E (objects c a)))
      | _ \<Rightarrow> objects c)"
  by (simp add: process_def Let_def split: sum.splits option.splits prod.splits)

lemma process_found:
  assumes "indexer_GetByKey E key = Inr (Some p)"
    and "reconcile E (objects c p) = (d, None)"
  shows "process E key c =
     (if DeepEqual (objects c p) d then (None, c\<lparr>objects := (objects c)(p := d)\<rparr>)
      else (kube_Update E d,
            c\<lparr>objects := (objects c)(p := d),
              api_calls := api_calls c @ [Update (Namespace (ObjectMeta d)) d]\<rparr>))"
  using assms DeepEqual_imp_status [of "objects c p" d]
  by (simp add: process_def DeepCopy_def)

text \<open>
  Claim C3, evaluated where it fails. \<open>process\<close> gives the cached object itself to
  \<open>reconcile\<close>, so the cached \<open>x\<close> holds three replicas although the \<open>Update\<close> that
  should persist them failed. The retry takes its snapshot from the object that is
  already changed, sees no difference, sends nothing and returns no error, and
  \<open>handleErr\<close> forgets the key: the change never reaches the server. \<open>processCluster\<close>
  writes to a listed object too: it allocates the label map of \<open>a\<close>, which had none.
\<close>

theorem cached_object_written_then_update_lost:
  "status_Replicas (Status (objects new_controller 0)) = 2
   \<and> fst (process failing_update_env ''default/x'' new_controller) = Some (Err ''network'')
   \<and> api_calls (snd (process failing_update_env ''default/x'' new_controller))
       = [Update ''default'' (fst (set_status_replicas 3 dep_x))]
   \<and> status_Replicas
       (Status (objects (snd (process failing_update_env ''default/x'' new_controller)) 0)) = 3
   \<and> objects (snd (process failing_update_env ''default/x'' new_controller)) 0
       \<noteq> objects new_controller 0
   \<and> fst (process failing_update_env ''default/x''
            (snd (process failing_update_env ''default/x'' new_controller))) = None
   \<and> api_calls (snd (process failing_update_env ''default/x''
            (snd (process failing_update_env ''default/x'' new_controller))))
       = [Update ''default'' (fst (set_status_replicas 3 dep_x))]
   \<and> calls (fst (handleErr
            (fst (process failing_update_env ''default/x''
               (snd (process failing_update_env ''default/x'' new_controller))))
            ''default/x'' (new_queue, []))) = [OpForget ''default/x'']
   \<and> Labels (ObjectMeta (objects new_controller 1)) = None
   \<and> Labels (ObjectMeta (objects (snd (processCluster demo_env ''east'' new_controller)) 1))
       = Some []
   \<and> objects (snd (processCluster demo_env ''east'' new_controller)) 1
       \<noteq> objects new_controller 1"
proof -
  let ?E = failing_update_env
  let ?d = "fst (set_status_replicas 3 dep_x)"
  have g: "indexer_GetByKey ?E ''default/x'' = Inr (Some 0)"
    by (simp add: failing_update_env_def demo_env_def demo_GetByKey_def)
  have o: "objects new_controller 0 = dep_x" "objects new_controller 1 = dep_a"
    by (simp_all add: new_controller_def demo_objects_def)
  have r1: "reconcile ?E (objects new_controller 0) = (?d, None)"
    by (simp add: o failing_update_env_def demo_env_def set_status_replicas_def)
  have ne: "\<not> DeepEqual (objects new_controller 0) ?d"
    by (simp add: o DeepEqual_def DeepEqual_status_def dep_x_def mk_deployment_def
        set_status_replicas_def)
  have ns: "Namespace (ObjectMeta ?d) = ''default''"
    by (simp add: dep_x_def mk_deployment_def set_status_replicas_def)
  have u: "kube_Update ?E ?d = Some (Err ''network'')"
    by (simp add: failing_update_env_def)
  have a0: "api_calls new_controller = []" by (simp add: new_controller_def)
  define c1 where "c1 = new_controller\<lparr>objects := (objects new_controller)(0 := ?d),
      api_calls := [Update ''default'' ?d]\<rparr>"
  have p1: "process ?E ''default/x'' new_controller = (Some (Err ''network''), c1)"
    using process_found [OF g r1] ne by (simp add: ns u a0 c1_def)
  have o1: "objects c1 0 = ?d" by (simp add: c1_def)
  have r2: "reconcile ?E (objects c1 0) = (?d, None)"
    by (simp add: o1 failing_update_env_def demo_env_def set_status_replicas_def)
  have eq: "DeepEqual (objects c1 0) ?d" by (simp add: o1 DeepEqual_refl)
  have p2: "process ?E ''default/x'' c1 = (None, c1\<lparr>objects := (objects c1)(0 := ?d)\<rparr>)"
    using process_found [OF g r2] eq by simp
  have s: "status_Replicas (Status dep_x) = 2" "status_Replicas (Status ?d) = 3"
    by (simp_all add: dep_x_def mk_deployment_def set_status_replicas_def)
  from s have dne: "?d \<noteq> dep_x" by auto
  have l: "lister_List demo_env = Inr [1, 2, 3]" by (simp add: demo_env_def)
  have pc: "objects (snd (processCluster demo_env ''east'' new_controller)) 1
      = init_labels dep_a"
    by (simp only: processCluster_def l sum.case snd_conv loop_objects o(2)[symmetric]) simp
  have lab: "Labels (ObjectMeta dep_a) = None" "Labels (ObjectMeta (init_labels dep_a)) = Some []"
    by (simp_all add: dep_a_def mk_deployment_def init_labels_def)
  from lab have lne: "init_labels dep_a \<noteq> dep_a" by auto
  have s1: "snd (process ?E ''default/x'' new_controller) = c1"
    and f1: "fst (process ?E ''default/x'' new_controller) = Some (Err ''network'')"
    by (simp_all add: p1)
  show ?thesis
    unfolding s1 f1 p2 pc o using s dne lab lne
    by (simp add: c1_def handleErr_def Forget_def new_queue_def)
qed

subsection \<open>Enqueueing on notifications\<close>

text \<open>
  Claim C4 fails as stated. A notification about the deployment \<open>a\<close> reaches the primary
  queue through \<open>AddRateLimited\<close>, not \<open>Add\<close>: the key is parked, not pending, and its
  requeue counter is one. The same holds for a cluster on the cluster queue.
\<close>

theorem enqueue_not_Add_counterexample:
  "MetaNamespaceKeyFunc (DeploymentObj dep_a) = Inr ''default/a''
   \<and> calls (queue (enqueue (DeploymentObj dep_a) new_controller)) = [OpAddRateLimited ''default/a'']
   \<and> OpAdd ''default/a'' \<notin> set (calls (queue (enqueue (DeploymentObj dep_a) new_controller)))
   \<and> ''default/a'' \<notin> set (pending (queue (enqueue (DeploymentObj dep_a) new_controller)))
   \<and> waiting (queue (enqueue (DeploymentObj dep_a) new_controller)) = [''default/a'']
   \<and> NumRequeues (queue (enqueue (DeploymentObj dep_a) new_controller)) ''default/a'' = 1
   \<and> calls (clusterQueue (enqueueCluster (ClusterObj cluster_east) new_controller))
       = [OpAddRateLimited ''east'']
   \<and> pending (clusterQueue (enqueueCluster (ClusterObj cluster_east) new_controller)) = []"
  by (simp add: enqueue_def enqueueCluster_def dep_a_def mk_deployment_def cluster_east_def
      meta_key_def new_controller_def new_queue_def AddRateLimited_def NumRequeues_def Let_def)

text \<open>
  Claim C4, amended. Every enqueue that an event triggers, from \<open>enqueue\<close>,
  \<open>enqueueCluster\<close> and the loop of \<open>processCluster\<close>, is an \<open>AddRateLimited\<close>: it counts
  one more requeue for the key and leaves the pending keys as they were, the key
  arriving after the delay of the rate limiter.
\<close>

theorem enqueue_is_rate_limited:
  "MetaNamespaceKeyFunc ob = Inr key \<Longrightarrow>
     enqueue ob c = c\<lparr>queue := AddRateLimited key (queue c)\<rparr>
     \<and> enqueueCluster ob c = c\<lparr>clusterQueue := AddRateLimited key (clusterQueue c)\<rparr>
     \<and> calls (queue (enqueue ob c)) = calls (queue c) @ [OpAddRateLimited key]
     \<and> pending (queue (enqueue ob c)) = pending (queue c)
     \<and> NumRequeues (queue (enqueue ob c)) key = Suc (NumRequeues (queue c) key)
     \<and> calls (clusterQueue (enqueueCluster ob c)) = calls (clusterQueue c) @ [OpAddRateLimited key]
     \<and> pending (clusterQueue (enqueueCluster ob c)) = pending (clusterQueue c)
     \<and> NumRequeues (clusterQueue (enqueueCluster ob c)) key
         = Suc (NumRequeues (clusterQueue c) key)
     \<and> (\<exists>new. calls (queue (snd (processCluster E k c))) = calls (queue c) @ new
           \<and> list_all is_AddRateLimited new)
     \<and> pending (queue (snd (processCluster E k c))) = pending (queue c)"
  by (cases "lister_List E")
    (simp_all add: enqueue_def enqueueCluster_def AddRateLimited_effect processCluster_def
      loop_queue fold_AddRateLimited_calls fold_AddRateLimited_pending list_all_iff)

theorem enqueue_is_rate_limited_witness:
  "MetaNamespaceKeyFunc (DeploymentObj dep_a) = Inr ''default/a''
   \<and> enqueue (DeploymentObj dep_a) new_controller
       = new_controller\<lparr>queue := AddRateLimited ''default/a'' (queue new_controller)\<rparr>
   \<and> pending (queue (snd (processCluster demo_env ''east'' new_controller))) = []"
proof -
  have h: "MetaNamespaceKeyFunc (DeploymentObj dep_a) = Inr ''default/a''"
    by (simp add: dep_a_def mk_deployment_def meta_key_def)
  show ?thesis
    using h enqueue_is_rate_limited [OF h, of new_controller demo_env "''east''"]
    by (simp add: new_controller_def new_queue_def)
qed

text \<open>
  Claim C5 fails as stated. The deployment informer has no delete handler: a delete
  notification about the deployment \<open>a\<close> leaves the primary queue empty.
\<close>

theorem deployment_delete_not_enqueued_counterexample:
  "MetaNamespaceKeyFunc (DeploymentObj dep_a) = Inr ''default/a''
   \<and> queue (deploymentEventHandler (OnDelete (DeploymentObj dep_a)) new_controller) = new_queue
   \<and> calls (queue (deploymentEventHandler (OnDelete (DeploymentObj dep_a)) new_controller)) = []
   \<and> ''default/a'' \<notin> set (pending (queue (deploymentEventHandler (OnDelete (DeploymentObj dep_a)) new_controller)))
   \<and> ''default/a'' \<notin> set (waiting (queue (deploymentEventHandler (OnDelete (DeploymentObj dep_a)) new_controller)))"
  by (simp add: dep_a_def mk_deployment_def meta_key_def new_controller_def new_queue_def)

text \<open>
  Claim C5, amended. On a create or update notification about a deployment the handler
  derives the key of the new object and enqueues it on the primary queue; when no key can
  be derived the error goes to the error sink and nothing is enqueued. A delete
  notification about a deployment changes nothing.
\<close>

theorem deployment_notifications:
  "(MetaNamespaceKeyFunc ob = Inr key \<longrightarrow>
      deploymentEventHandler (OnAdd ob) c = c\<lparr>queue := AddRateLimited key (queue c)\<rparr>
      \<and> deploymentEventHandler (OnUpdate old ob) c = c\<lparr>queue := AddRateLimited key (queue c)\<rparr>)
   \<and> (MetaNamespaceKeyFunc ob = Inl err \<longrightarrow>
      deploymentEventHandler (OnAdd ob) c = c\<lparr>handled_errors := handled_errors c @ [err]\<rparr>
      \<and> deploymentEventHandler (OnUpdate old ob) c = c\<lparr>handled_errors := handled_errors c @ [err]\<rparr>)
   \<and> deploymentEventHandler (OnDelete ob) c = c"
  by (simp add: enqueue_def)

theorem deployment_notifications_witness:
  "MetaNamespaceKeyFunc (DeploymentObj dep_b) = Inr ''default/b''
   \<and> deploymentEventHandler (OnAdd (DeploymentObj dep_b)) new_controller
       = new_controller\<lparr>queue := AddRateLimited ''default/b'' (queue new_controller)\<rparr>
   \<and> deploymentEventHandler (OnUpdate (DeploymentObj dep_a) (DeploymentObj dep_b)) new_controller
       = new_controller\<lparr>queue := AddRateLimited ''default/b'' (queue new_controller)\<rparr>
   \<and> MetaNamespaceKeyFunc NoMeta = Inl (Err ''object has no meta'')
   \<and> deploymentEventHandler (OnAdd NoMeta) new_controller
       = new_controller\<lparr>handled_errors := handled_errors new_controller @ [Err ''object has no meta'']\<rparr>"
proof -
  have h: "MetaNamespaceKeyFunc (DeploymentObj dep_b) = Inr ''default/b''"
    by (simp add: dep_b_def mk_deployment_def meta_key_def)
  have n: "MetaNamespaceKeyFunc NoMeta = Inl (Err ''object has no meta'')"
    by simp
  from deployment_notifications [of "DeploymentObj dep_b" "''default/b''" new_controller
      "DeploymentObj dep_a" "Err []"] h
  have A: "deploymentEventHandler (OnAdd (DeploymentObj dep_b)) new_controller
       = new_controller\<lparr>queue := AddRateLimited ''default/b'' (queue new_controller)\<rparr>
     \<and> deploymentEventHandler (OnUpdate (DeploymentObj dep_a) (DeploymentObj dep_b)) new_controller
       = new_controller\<lparr>queue := AddRateLimited ''default/b'' (queue new_controller)\<rparr>"
    by blast
  from deployment_notifications [of NoMeta "[]" new_controller NoMeta "Err ''object has no meta''"] n
  have B: "deploymentEventHandler (OnAdd NoMeta) new_controller
       = new_controller\<lparr>handled_errors := handled_errors new_controller @ [Err ''object has no meta'']\<rparr>"
    by blast
  show ?thesis using h n A B by blast
qed

subsection \<open>The worker loops\<close>

lemma Get_Item:
  "Get q0 = Item key q \<Longrightarrow>
     key \<in> processing q \<and> calls q = calls q0 @ [OpGet key] \<and> failures q = failures q0"
  by (auto simp: Get_def split: list.splits if_splits)

lemma Done_effect:
  "calls (Done k q) = calls q @ [OpDone k]"
  "processing (Done k q) = processing q - {k}"
  by (simp_all add: Done_def Let_def)

lemma handleErr_processing:
  "processing (fst (handleErr err key (q, sink))) = processing q"
  by (simp add: handleErr_def Forget_def AddRateLimited_def Let_def split: option.splits)

lemma Forget_processing: "processing (Forget k q) = processing q"
  by (simp add: Forget_def)

lemma processCluster_frame:
  "clusterQueue (snd (processCluster E key c)) = clusterQueue c"
  by (simp add: processCluster_def loop_frame split: sum.splits)

lemma worker_turn_Done_same_queue:
  assumes g: "Get (queue c) = Item key q"
  shows "\<exists>c'. processNextWorkItem E c = Some (True, c')
     \<and> key \<notin> processing (queue c') \<and> last (calls (queue c')) = OpDone key"
proof -
  obtain err c2 where p: "process E key (c\<lparr>queue := q\<rparr>) = (err, c2)"
    by (cases "process E key (c\<lparr>queue := q\<rparr>)")
  obtain q3 sink where h: "handleErr err key (queue c2, handled_errors c2) = (q3, sink)"
    by (cases "handleErr err key (queue c2, handled_errors c2)")
  have "processNextWorkItem E c
      = Some (True, c2\<lparr>queue := Done key q3, handled_errors := sink\<rparr>)"
    by (simp add: processNextWorkItem_def g p h)
  then show ?thesis by (simp add: Done_effect)
qed

lemma cluster_worker_key_stays_in_processing:
  assumes g: "Get (clusterQueue c) = Item key q"
  shows "\<exists>c'. processNextClusterWorkItem E c = Some (True, c')
     \<and> key \<in> processing (clusterQueue c')"
proof -
  obtain err c2 where p: "processCluster E key (c\<lparr>clusterQueue := q\<rparr>) = (err, c2)"
    by (cases "processCluster E key (c\<lparr>clusterQueue := q\<rparr>)")
  from processCluster_frame [of E key "c\<lparr>clusterQueue := q\<rparr>"] p
  have cq: "clusterQueue c2 = q" by simp
  obtain q3 sink where h: "handleErr err key (q, handled_errors c2) = (q3, sink)"
    by (cases "handleErr err key (q, handled_errors c2)")
  from handleErr_processing [of err key q "handled_errors c2"] h Get_Item [OF g]
  have k: "key \<in> processing q3" by simp
  have "processNextClusterWorkItem E c
      = Some (True, c2\<lparr>clusterQueue := q3, handled_errors := sink, queue := Done key (queue c2)\<rparr>)"
    by (simp add: processNextClusterWorkItem_def g p h cq)
  then show ?thesis using k by simp
qed

lemma cluster_worker_turn:
  assumes g: "Get (clusterQueue c) = Item key q" and l: "lister_List E = Inr ds"
  shows "\<exists>c'. processNextClusterWorkItem E c = Some (True, c')
     \<and> clusterQueue c' = Forget key q
     \<and> queue c' = Done key (fold (\<lambda>p. AddRateLimited (deployment_key (objects c p)))
          (filter (\<lambda>p. is_root (ownedByLabel E) (objects c p)) ds) (queue c))"
  by (simp add: processNextClusterWorkItem_def g l processCluster_def handleErr_def
      loop_queue loop_frame)

lemma cluster_pending_fields:
  "clusterQueue cluster_pending =
     \<lparr>pending = [''east''], dirty = {''east''}, processing = {}, waiting = [],
      failures = (\<lambda>_. 0)(''east'' := Suc 0), shuttingDown = False,
      calls = [OpAddRateLimited ''east'']\<rparr>"
  "queue cluster_pending = new_queue"
  "objects cluster_pending = demo_objects"
  by (simp_all add: cluster_pending_def cluster_east_def enqueueCluster_def meta_key_def
      AddRateLimited_def release_def add_item_def Let_def new_controller_def new_queue_def)

text \<open>
  Claim C2, evaluated where it fails. The cluster queue holds the key \<open>east\<close>. One turn
  of the cluster worker takes it from the cluster queue and calls \<open>Done\<close> on the primary
  queue; the cluster queue never sees \<open>Done\<close> and keeps \<open>east\<close> in processing.
\<close>

theorem cluster_worker_Done_on_primary_queue:
  "pending (clusterQueue cluster_pending) = [''east'']
   \<and> calls (queue cluster_pending) = []
   \<and> calls (clusterQueue cluster_pending) = [OpAddRateLimited ''east'']
   \<and> map_option fst (processNextClusterWorkItem demo_env cluster_pending) = Some True
   \<and> calls (clusterQueue (snd (the (processNextClusterWorkItem demo_env cluster_pending))))
       = [OpAddRateLimited ''east'', OpGet ''east'', OpForget ''east'']
   \<and> calls (queue (snd (the (processNextClusterWorkItem demo_env cluster_pending))))
       = [OpAddRateLimited ''default/a'', OpAddRateLimited ''default/b'', OpDone ''east'']
   \<and> ''east'' \<in> processing (clusterQueue (snd (the (processNextClusterWorkItem demo_env cluster_pending))))"
proof -
  obtain q where g: "Get (clusterQueue cluster_pending) = Item ''east'' q"
    by (simp add: Get_def cluster_pending_fields)
  have l: "lister_List demo_env = Inr [1, 2, 3]" by (simp add: demo_env_def)
  from cluster_worker_turn [OF g l] obtain c' where
    r: "processNextClusterWorkItem demo_env cluster_pending = Some (True, c')"
    and cq: "clusterQueue c' = Forget ''east'' q"
    and pq: "queue c' = Done ''east'' (fold (\<lambda>p. AddRateLimited (deployment_key (objects cluster_pending p)))
          (filter (\<lambda>p. is_root (ownedByLabel demo_env) (objects cluster_pending p)) [1, 2, 3])
          (queue cluster_pending))"
    by blast
  have roots: "map (\<lambda>p. OpAddRateLimited (deployment_key (demo_objects p)))
            (filter (\<lambda>p. is_root (ownedByLabel demo_env) (demo_objects p)) [1, 2, 3])
        = [OpAddRateLimited ''default/a'', OpAddRateLimited ''default/b'']"
    by (simp add: demo_defs is_root_def deployment_key_def meta_key_def)
  have a: "calls (queue c') = [OpAddRateLimited ''default/a'', OpAddRateLimited ''default/b'', OpDone ''east'']"
    unfolding pq Done_effect fold_AddRateLimited_calls cluster_pending_fields roots
    by (simp add: new_queue_def)
  have b: "calls (clusterQueue c') = [OpAddRateLimited ''east'', OpGet ''east'', OpForget ''east'']"
    using Get_Item [OF g] by (simp add: cq Forget_effect cluster_pending_fields)
  have d: "''east'' \<in> processing (clusterQueue c')"
    using Get_Item [OF g] by (simp add: cq Forget_processing)
  show ?thesis
    by (simp add: r a b d) (simp add: cluster_pending_fields new_queue_def)
qed

end
